theory Spec2Isabelle
  imports Complex_Main "HOL-Library.Sublist"
begin

section \<open>Types (types.ts)\<close>

text \<open>
  The enums of \<^verbatim>\<open>types.ts\<close>. \<^verbatim>\<open>IntentType\<close> is a string enum; its
  string values matter to the classifier, which compares the model's answer with them.
\<close>

datatype AgentType = MASTER | SLA | RISK | VALIDATION | SYSTEM

datatype IntentType = QUERY | FEEDBACK | COMPLAINT | UNKNOWN

datatype RiskLevel = LOW | MEDIUM | HIGH | CRITICAL

datatype Status = pending | success | warning | error

fun IntentType_value :: "IntentType \<Rightarrow> string" where
  "IntentType_value QUERY = ''Product Query''"
| "IntentType_value FEEDBACK = ''Feedback/Feature''"
| "IntentType_value COMPLAINT = ''Complaint''"
| "IntentType_value UNKNOWN = ''Unknown''"

text \<open>
  \<^verbatim>\<open>DomainConfig\<close>: the display fields \<^verbatim>\<open>logo\<close> and \<^verbatim>\<open>description\<close> are
  never read by the service and are left out. The thresholds are JavaScript numbers;
  the service only compares them with 1, so they are reals here. A keyword is a sequence
  of code units of some type \<open>'c\<close>; the shipped configurations use ASCII characters.
\<close>

record SlaThresholds =
  urgent :: real
  standard :: real

record 'c RiskKeywords =
  critical :: "'c list list"
  high :: "'c list list"
  medium :: "'c list list"

record 'c DomainConfig =
  id_cfg :: string
  name_cfg :: string
  slaThresholds :: SlaThresholds
  riskKeywords :: "'c RiskKeywords"

section \<open>Strings\<close>

text \<open>
  A JavaScript string is a sequence of UTF-16 code units. \<^verbatim>\<open>s.includes(w)\<close> compares
  code units: \<open>w\<close> occurs in \<open>s\<close> as a contiguous run, and the empty string occurs in
  every string. The two functions below work for every type of code unit.
\<close>

fun starts_with :: "'c list \<Rightarrow> 'c list \<Rightarrow> bool" where
  "starts_with s [] = True"
| "starts_with [] (c # w) = False"
| "starts_with (a # s) (c # w) = (a = c \<and> starts_with s w)"

fun includes_str :: "'c list \<Rightarrow> 'c list \<Rightarrow> bool" where
  "includes_str [] w = (w = [])"
| "includes_str (a # s) w = (starts_with (a # s) w \<or> includes_str s w)"

text \<open>
  \<^verbatim>\<open>String.prototype.toLowerCase\<close> is a builtin that follows the Unicode case
  mappings. The risk calculator below takes it as a parameter, so that what is proved
  of the calculator holds for every text. The pipeline is run on ASCII strings, where
  \<^verbatim>\<open>toLowerCase\<close> maps the letters A to Z to a to z and leaves every other character
  alone.
\<close>

definition lower_char :: "char \<Rightarrow> char" where
  "lower_char c =
     (let n = (of_char c :: nat) in if 65 \<le> n \<and> n \<le> 90 then char_of (n + 32) else c)"

definition toLowerCase :: "string \<Rightarrow> string" where
  "toLowerCase s = map lower_char s"

section \<open>Risk calculator (calculateRiskScore)\<close>

record RiskAssessment =
  score :: nat
  level :: RiskLevel

text \<open>
  Each \<^verbatim>\<open>forEach\<close> over a keyword tier is a fold over the list that carries the
  running score. \<open>calculateRiskScore_with lc\<close> is the source function with \<open>lc\<close> for
  \<^verbatim>\<open>toLowerCase\<close>; \<open>calculateRiskScore\<close> is the function the pipeline calls on its
  ASCII strings.
\<close>

definition add_hits :: "'c list \<Rightarrow> nat \<Rightarrow> 'c list list \<Rightarrow> nat \<Rightarrow> nat" where
  "add_hits lowerText points kws s0 =
     fold (\<lambda>word s. if includes_str lowerText word then s + points else s) kws s0"

definition calculateRiskScore_with ::
  "('c list \<Rightarrow> 'c list) \<Rightarrow> 'c list \<Rightarrow> 'c DomainConfig \<Rightarrow> RiskAssessment" where
  "calculateRiskScore_with lc text domain =
     (let lowerText = lc text;
          s1 = add_hits lowerText 40 (critical (riskKeywords domain)) 0;
          s2 = add_hits lowerText 20 (high (riskKeywords domain)) s1;
          s3 = add_hits lowerText 10 (medium (riskKeywords domain)) s2;
          s4 = (if s3 > 100 then 100 else s3);
          lv = (if s4 \<ge> 80 then CRITICAL
                else if s4 \<ge> 50 then HIGH
                else if s4 \<ge> 20 then MEDIUM
                else LOW)
      in \<lparr>score = s4, level = lv\<rparr>)"

definition calculateRiskScore :: "string \<Rightarrow> char DomainConfig \<Rightarrow> RiskAssessment" where
  "calculateRiskScore text domain = calculateRiskScore_with toLowerCase text domain"

section \<open>SLA estimator (checkSLAStatus)\<close>

record SLAStatus =
  breachPredicted :: bool
  timeToResolve :: real
  unit_sla :: string
  reason :: string

definition checkSLAStatus :: "IntentType \<Rightarrow> RiskLevel \<Rightarrow> 'c DomainConfig \<Rightarrow> SLAStatus" where
  "checkSLAStatus intent risk domain =
     (let isUrgent = (risk = HIGH \<or> risk = CRITICAL \<or> intent = COMPLAINT);
          threshold = (if isUrgent then urgent (slaThresholds domain)
                       else standard (slaThresholds domain));
          rsn = (if risk = CRITICAL then ''Critical Risk Score (>80)''
                 else if risk = HIGH then ''High Risk Score (>50)''
                 else if intent = COMPLAINT then ''Complaint Priority''
                 else if isUrgent then ''Urgent Intent Classification''
                 else ''Standard workflow applies'')
      in \<lparr>breachPredicted = (isUrgent \<and> threshold < 1),
          timeToResolve = threshold,
          unit_sla = ''hours'',
          reason = rsn\<rparr>)"

section \<open>Team routing (determineNotifiedTeams)\<close>

text \<open>
  A JavaScript \<^verbatim>\<open>Set\<close> keeps its members in insertion order and
  \<^verbatim>\<open>Array.from\<close> lists them in that order: a list without duplicates.
\<close>

definition set_add :: "string \<Rightarrow> string list \<Rightarrow> string list" where
  "set_add x teams = (if x \<in> set teams then teams else teams @ [x])"

definition set_delete :: "string \<Rightarrow> string list \<Rightarrow> string list" where
  "set_delete x teams = removeAll x teams"

definition determineNotifiedTeams :: "IntentType \<Rightarrow> RiskLevel \<Rightarrow> string \<Rightarrow> string list" where
  "determineNotifiedTeams intent risk domainId =
     (let t0 = set_add ''L1 Support'' [];
          t1 = (if risk = CRITICAL then
                  set_add ''Crisis Response''
                    (set_delete ''L1 Support''
                      (set_add ''Senior Leadership''
                        (set_add ''Legal & Compliance'' t0)))
                else if risk = HIGH then
                  set_add ''L3 Support Lead'' (set_add ''Risk Management'' t0)
                else t0);
          t2 = (if intent = COMPLAINT then
                  set_add ''Quality Assurance'' (set_add ''Customer Retention'' t1)
                else if intent = FEEDBACK then
                  set_add ''UX Research'' (set_add ''Product Management'' t1)
                else t1);
          t3 = (if domainId = ''zepto'' then
                  (if intent = COMPLAINT \<or> risk = HIGH then
                     set_add ''Hub Manager'' (set_add ''Logistics Ops'' t2)
                   else t2)
                else if domainId = ''bny'' then
                  (if intent = QUERY \<and> risk \<noteq> LOW then set_add ''Wealth Advisory'' t2
                   else t2)
                else t2)
      in t3)"

section \<open>Domain registry (mockData.ts)\<close>

definition bny :: "char DomainConfig" where
  "bny = \<lparr>id_cfg = ''bny'', name_cfg = ''BNY'',
     slaThresholds = \<lparr>urgent = 4, standard = 24\<rparr>,
     riskKeywords = \<lparr>
       critical = [''fraud'', ''unauthorized'', ''compliance breach'', ''lawsuit'', ''breach'',
         ''lost money'', ''emergency'', ''sec investigation'', ''money laundering'',
         ''sanctions'', ''insider trading'', ''identity theft'', ''hacked'',
         ''fiduciary failure'', ''regulatory inquiry''],
       high = [''fail'', ''error'', ''urgent'', ''stuck'', ''immediately'', ''penalty'',
         ''escalate'', ''margin call'', ''trade failure'', ''wire missing'',
         ''incorrect balance'', ''double charge'', ''cannot withdraw'', ''account frozen'',
         ''system outage''],
       medium = [''delay'', ''slow'', ''confused'', ''access'', ''login'', ''reset'',
         ''password'', ''fees'', ''statement'', ''clarification'', ''not working'',
         ''app crash'']\<rparr>\<rparr>"

definition zepto :: "char DomainConfig" where
  "zepto = \<lparr>id_cfg = ''zepto'', name_cfg = ''Zepto'',
     slaThresholds = \<lparr>urgent = 0.25, standard = 1\<rparr>,
     riskKeywords = \<lparr>
       critical = [''spoiled'', ''allergy'', ''sick'', ''unsafe'', ''accident'',
         ''food poisoning'', ''scam'', ''sexual harassment'', ''threatened'', ''stalking'',
         ''severe injury'', ''hospital'', ''expired product'', ''foreign object'',
         ''contamination''],
       high = [''late'', ''missing'', ''cold'', ''wrong item'', ''refund'', ''cancel'',
         ''driver'', ''never arrived'', ''spilled'', ''damaged'', ''rude'',
         ''unprofessional'', ''vehicle breakdown'', ''payment failed'', ''charged twice''],
       medium = [''status'', ''where'', ''promo'', ''coupon'', ''bag'', ''item missing'',
         ''change address'', ''add item'', ''phone number'', ''contact support'',
         ''eta'']\<rparr>\<rparr>"

text \<open>
  \<^verbatim>\<open>DOMAINS[domainId]\<close>: the configuration of a registered id, \<^verbatim>\<open>undefined\<close>
  (\<open>None\<close>) for any other id. An id that names a member of \<^verbatim>\<open>Object.prototype\<close>
  (such as \<^verbatim>\<open>constructor\<close>) yields that member instead of \<^verbatim>\<open>undefined\<close>; the run
  then ends in the same TypeError, at the first read of \<^verbatim>\<open>riskKeywords\<close> rather than
  of \<^verbatim>\<open>name\<close>. The two are not told apart here.
\<close>

definition DOMAINS :: "string \<Rightarrow> char DomainConfig option" where
  "DOMAINS domainId =
     (if domainId = ''bny'' then Some bny
      else if domainId = ''zepto'' then Some zepto
      else None)"

section \<open>JSON values and the language-model service\<close>

text \<open>
  What \<^verbatim>\<open>JSON.parse\<close> returns. An object is the list of its own properties,
  each key once.
\<close>

datatype json =
    JNull
  | JBool bool
  | JNumber real
  | JString string
  | JArray "json list"
  | JObject "(string \<times> json) list"

datatype exn = TypeError | SyntaxError | ServiceError | CallbackError

text \<open>
  One call site of the service, \<^verbatim>\<open>generateContent\<close> followed by
  \<^verbatim>\<open>JSON.parse(res.text || '{}')\<close>, ends in one of three ways: the request is rejected,
  the reply text does not parse, or it parses to a value (an absent or empty reply text
  parses to the empty object). The service is outside the repository, so the three
  outcomes of a run are its input.
\<close>

datatype outcome = Rejected | Unparseable | Parsed json

record ai_client =
  intent_reply :: outcome
  response_reply :: outcome
  validation_reply :: outcome

text \<open>
  Reading a property \<^verbatim>\<open>v.k\<close> of a parsed value: a TypeError on \<^verbatim>\<open>null\<close>, the own
  property of an object, and \<^verbatim>\<open>undefined\<close> (\<open>None\<close>) otherwise. The keys read by the
  service (intent, response, suggestedActions, isValid, reason) are not inherited from
  any prototype.
\<close>

fun get_prop :: "json \<Rightarrow> string \<Rightarrow> exn + json option" where
  "get_prop JNull k = Inl TypeError"
| "get_prop (JObject kvs) k = Inr (map_of kvs k)"
| "get_prop v k = Inr None"

text \<open>Truthiness, \<^verbatim>\<open>a || b\<close> and \<^verbatim>\<open>a ?? b\<close>, with \<open>None\<close> for \<^verbatim>\<open>undefined\<close>.\<close>

fun truthy :: "json \<Rightarrow> bool" where
  "truthy JNull = False"
| "truthy (JBool b) = b"
| "truthy (JNumber x) = (x \<noteq> 0)"
| "truthy (JString s) = (s \<noteq> [])"
| "truthy (JArray xs) = True"
| "truthy (JObject kvs) = True"

fun js_or :: "json option \<Rightarrow> json \<Rightarrow> json" where
  "js_or None b = b"
| "js_or (Some a) b = (if truthy a then a else b)"

fun js_nullish :: "json option \<Rightarrow> json \<Rightarrow> json" where
  "js_nullish None b = b"
| "js_nullish (Some JNull) b = b"
| "js_nullish (Some a) b = a"

text \<open>
  A template literal converts the value it embeds to a string. For parsed JSON this
  throws a TypeError exactly when the value is, or as an array holds, an object with an
  own property \<^verbatim>\<open>toString\<close> (which is then not callable).
\<close>

fun renderable :: "json \<Rightarrow> bool" where
  "renderable (JArray xs) = list_all renderable xs"
| "renderable (JObject kvs) = (''toString'' \<notin> set (map fst kvs))"
| "renderable v = True"

section \<open>Progress events\<close>

text \<open>
  The message of a step is kept as its template and the values embedded in it; the
  \<^verbatim>\<open>timestamp\<close> (a clock reading) is left out.
\<close>

datatype Message =
    Analyzing_intent
  | Identified_Intent IntentType
  | Calculating_risk_score
  | Risk_Level RiskLevel nat
  | Checking_SLA_thresholds
  | SLA_breach_WARNING real
  | SLA_Status_Normal real
  | Routing_to "string list"
  | Routed_to "string list"
  | Validating_response_quality
  | Verified json
  | FLAGGED json

record ProcessingStep =
  agent :: AgentType
  message :: Message
  status :: Status

text \<open>
  The run's effect is the sequence of steps it passes to the callback. A callback is
  described by whether a call returns normally, given the steps it received before;
  a call that does not return normally throws.
\<close>

type_synonym trace = "ProcessingStep list"

type_synonym callback = "trace \<Rightarrow> ProcessingStep \<Rightarrow> bool"

type_synonym 'a io = "trace \<Rightarrow> (exn + 'a) \<times> trace"

definition io_return :: "'a \<Rightarrow> 'a io" where
  "io_return x tr = (Inr x, tr)"

definition io_of :: "exn + 'a \<Rightarrow> 'a io" where
  "io_of r tr = (r, tr)"

definition io_bind :: "'a io \<Rightarrow> ('a \<Rightarrow> 'b io) \<Rightarrow> 'b io" where
  "io_bind m f tr = (case m tr of (Inl e, tr') \<Rightarrow> (Inl e, tr') | (Inr x, tr') \<Rightarrow> f x tr')"

definition io_catch :: "'a io \<Rightarrow> (exn \<Rightarrow> 'a io) \<Rightarrow> 'a io" where
  "io_catch m h tr = (case m tr of (Inl e, tr') \<Rightarrow> h e tr' | (Inr x, tr') \<Rightarrow> (Inr x, tr'))"

definition onStep :: "callback \<Rightarrow> ProcessingStep \<Rightarrow> unit io" where
  "onStep cb step tr = (if cb tr step then Inr () else Inl CallbackError, tr @ [step])"

section \<open>The pipeline (processUserRequest)\<close>

record ChatMessage =
  role :: string
  content :: string

record Metadata =
  riskScore :: nat
  riskLevel :: RiskLevel
  slaBreachPredicted :: bool
  slaTargetHours :: real
  slaReason :: string
  intent :: IntentType
  domain :: string
  notifiedTeams :: "string list"
  validationPassed :: json
  validationReason :: json

record PipelineResult =
  response :: json
  suggestedActions :: "json list"
  metadata :: Metadata

text \<open>
  The body of the classification \<^verbatim>\<open>try\<close> up to the success step: the intent it
  assigns, or the exception it throws.
\<close>

fun intent_of_value :: "string \<Rightarrow> IntentType option" where
  "intent_of_value s =
     (if s = IntentType_value QUERY then Some QUERY
      else if s = IntentType_value FEEDBACK then Some FEEDBACK
      else if s = IntentType_value COMPLAINT then Some COMPLAINT
      else if s = IntentType_value UNKNOWN then Some UNKNOWN
      else None)"

definition classify :: "outcome \<Rightarrow> exn + IntentType" where
  "classify r =
     (case r of
        Rejected \<Rightarrow> Inl ServiceError
      | Unparseable \<Rightarrow> Inl SyntaxError
      | Parsed intentData \<Rightarrow>
          (case get_prop intentData ''intent'' of
             Inl e \<Rightarrow> Inl e
           | Inr p \<Rightarrow>
               (case js_or p (JString []) of
                  JString text \<Rightarrow>
                    (case intent_of_value text of
                       Some i \<Rightarrow> Inr i
                     | None \<Rightarrow>
                         Inr (if includes_str (toLowerCase text) ''complaint'' then COMPLAINT
                              else if includes_str (toLowerCase text) ''feedback'' then FEEDBACK
                              else if includes_str (toLowerCase text) ''feature'' then FEEDBACK
                              else QUERY))
                | _ \<Rightarrow> Inl TypeError)))"

text \<open>
  The generation \<^verbatim>\<open>try\<close>/\<^verbatim>\<open>catch\<close>: the reply text and the suggested actions
  it leaves behind. Nothing is assigned before the last point that can throw.
\<close>

definition generateResponse :: "outcome \<Rightarrow> json \<times> json list" where
  "generateResponse r =
     (case r of
        Parsed jsonResponse \<Rightarrow>
          (case get_prop jsonResponse ''response'' of
             Inl e \<Rightarrow>
               (JString ''I encountered a temporary issue processing your request. Please try again.'', [])
           | Inr p \<Rightarrow>
               (js_or p (JString ''I apologize, I am unable to process your request at the moment.''),
                (case get_prop jsonResponse ''suggestedActions'' of
                   Inr (Some (JArray acts)) \<Rightarrow> acts
                 | _ \<Rightarrow> [])))
      | _ \<Rightarrow>
          (JString ''I encountered a temporary issue processing your request. Please try again.'', []))"

text \<open>
  The validation \<^verbatim>\<open>try\<close>/\<^verbatim>\<open>catch\<close>: the values of \<^verbatim>\<open>validationPassed\<close> and
  \<^verbatim>\<open>validationReason\<close> it leaves behind. The warning logged on a negative verdict
  embeds the reason in a template literal, inside the \<^verbatim>\<open>try\<close>.
\<close>

definition validateResponse :: "outcome \<Rightarrow> json \<times> json" where
  "validateResponse r =
     (case r of
        Parsed valData \<Rightarrow>
          (case get_prop valData ''isValid'' of
             Inl e \<Rightarrow> (JBool True, JString ''Validation service unavailable.'')
           | Inr p \<Rightarrow>
               (let passed = js_nullish p (JBool True) in
                case get_prop valData ''reason'' of
                  Inl e \<Rightarrow> (passed, JString ''Validation service unavailable.'')
                | Inr q \<Rightarrow>
                    (let rsn = js_or q (JString ''Validation completed.'') in
                     if \<not> truthy passed \<and> \<not> renderable rsn
                     then (passed, JString ''Validation service unavailable.'')
                     else (passed, rsn))))
      | _ \<Rightarrow> (JBool True, JString ''Validation service unavailable.''))"

text \<open>
  The run. The prompts only travel to the service and are not built here, except that
  a template literal that can throw is a step of the run: the classification prompt
  reads \<^verbatim>\<open>domain.name\<close>, the validation prompt embeds the reply text, and the last
  step's message embeds the validation reason. The conversation history only enters
  the generation request. Constructing the service client is taken to return normally.
\<close>

definition processUserRequest ::
  "ai_client \<Rightarrow> string \<Rightarrow> ChatMessage list \<Rightarrow> string \<Rightarrow> callback \<Rightarrow> PipelineResult io" where
  "processUserRequest ai userMessage history domainId onStepUpdate =
     io_bind (onStep onStepUpdate
       \<lparr>agent = MASTER, message = Analyzing_intent, status = pending\<rparr>) (\<lambda>_.
     io_bind (io_of (case DOMAINS domainId of None \<Rightarrow> Inl TypeError | Some d \<Rightarrow> Inr d)) (\<lambda>cfg.
     io_bind (io_catch
         (io_bind (io_of (classify (intent_reply ai))) (\<lambda>i.
          io_bind (onStep onStepUpdate
            \<lparr>agent = MASTER, message = Identified_Intent i, status = success\<rparr>) (\<lambda>_.
          io_return i)))
         (\<lambda>e. io_return QUERY)) (\<lambda>intent_v.
     io_bind (onStep onStepUpdate
       \<lparr>agent = RISK, message = Calculating_risk_score, status = pending\<rparr>) (\<lambda>_.
     let ra = calculateRiskScore userMessage cfg in
     io_bind (onStep onStepUpdate
       \<lparr>agent = RISK, message = Risk_Level (level ra) (score ra),
        status = (if level ra = CRITICAL \<or> level ra = HIGH then warning else success)\<rparr>) (\<lambda>_.
     io_bind (onStep onStepUpdate
       \<lparr>agent = SLA, message = Checking_SLA_thresholds, status = pending\<rparr>) (\<lambda>_.
     let slaStatus = checkSLAStatus intent_v (level ra) cfg in
     io_bind (onStep onStepUpdate
       \<lparr>agent = SLA,
        message = (if breachPredicted slaStatus
                   then SLA_breach_WARNING (timeToResolve slaStatus)
                   else SLA_Status_Normal (timeToResolve slaStatus)),
        status = (if breachPredicted slaStatus then warning else success)\<rparr>) (\<lambda>_.
     let teams = determineNotifiedTeams intent_v (level ra) domainId in
     io_bind (onStep onStepUpdate
       \<lparr>agent = SYSTEM, message = Routing_to teams, status = pending\<rparr>) (\<lambda>_.
     let gen = generateResponse (response_reply ai) in
     io_bind (onStep onStepUpdate
       \<lparr>agent = SYSTEM, message = Routed_to teams, status = success\<rparr>) (\<lambda>_.
     io_bind (onStep onStepUpdate
       \<lparr>agent = VALIDATION, message = Validating_response_quality, status = pending\<rparr>) (\<lambda>_.
     io_bind (io_of (if renderable (fst gen) then Inr () else Inl TypeError)) (\<lambda>_.
     let val = validateResponse (validation_reply ai) in
     io_bind (io_of (if renderable (snd val) then Inr () else Inl TypeError)) (\<lambda>_.
     io_bind (onStep onStepUpdate
       \<lparr>agent = VALIDATION,
        message = (if truthy (fst val) then Verified (snd val) else FLAGGED (snd val)),
        status = (if truthy (fst val) then success else warning)\<rparr>) (\<lambda>_.
     io_return
       \<lparr>response = fst gen,
        suggestedActions = snd gen,
        metadata = \<lparr>riskScore = score ra,
          riskLevel = level ra,
          slaBreachPredicted = breachPredicted slaStatus,
          slaTargetHours = timeToResolve slaStatus,
          slaReason = reason slaStatus,
          intent = intent_v,
          domain = domainId,
          notifiedTeams = teams,
          validationPassed = fst val,
          validationReason = snd val\<rparr>\<rparr>)))))))))))))"

section \<open>Concrete inputs and auxiliary notions for the statements\<close>

text \<open>A callback that always returns normally, as the chat view's callback does.\<close>

definition always_returns :: callback where
  "always_returns tr step = True"

text \<open>A service that answers every call well, and the same service with one call changed.\<close>

definition healthy_ai :: ai_client where
  "healthy_ai =
     \<lparr>intent_reply = Parsed (JObject [(''intent'', JString ''Complaint'')]),
      response_reply = Parsed (JObject
        [(''response'', JString ''A specialist will contact you shortly.''),
         (''suggestedActions'', JArray [])]),
      validation_reply = Parsed (JObject
        [(''isValid'', JBool True), (''reason'', JString ''Relevant and accurate.'')])\<rparr>"

definition all_rejected :: ai_client where
  "all_rejected =
     \<lparr>intent_reply = Rejected, response_reply = Rejected, validation_reply = Rejected\<rparr>"

definition classification_down :: ai_client where
  "classification_down = healthy_ai\<lparr>intent_reply := Rejected\<rparr>"

definition validation_down :: ai_client where
  "validation_down = healthy_ai\<lparr>validation_reply := Rejected\<rparr>"

definition negative_verdict :: ai_client where
  "negative_verdict = healthy_ai\<lparr>validation_reply := Parsed (JObject
     [(''isValid'', JBool False), (''reason'', JString ''Tone is not apologetic.'')])\<rparr>"

text \<open>
  A validation reply that approves, with a reason that is an object with an own
  property \<^verbatim>\<open>toString\<close>; and a callback that throws on every call.
\<close>

definition odd_reason :: ai_client where
  "odd_reason = healthy_ai\<lparr>validation_reply := Parsed (JObject
     [(''isValid'', JBool True), (''reason'', JObject [(''toString'', JNumber 1)])])\<rparr>"

definition never_returns :: callback where
  "never_returns tr step = False"

text \<open>
  A text outside ASCII, as UTF-16 code units: \<open>hac\<close>, the Kelvin sign (U+212A) and
  \<open>ed\<close>. \<^verbatim>\<open>toLowerCase\<close> maps the Kelvin sign to \<open>k\<close>; \<open>lower_units\<close> is
  \<^verbatim>\<open>toLowerCase\<close> on the code units that occur here.
\<close>

definition lower_units :: "nat list \<Rightarrow> nat list" where
  "lower_units s =
     map (\<lambda>c. if c = 8490 then 107 else if 65 \<le> c \<and> c \<le> 90 then c + 32 else c) s"

definition kelvin_text :: "nat list" where
  "kelvin_text = [104, 97, 99, 8490, 101, 100]"

definition hacked_cfg :: "nat DomainConfig" where
  "hacked_cfg = \<lparr>id_cfg = ''demo'', name_cfg = ''Demo'',
     slaThresholds = \<lparr>urgent = 4, standard = 24\<rparr>,
     riskKeywords = \<lparr>critical = [[104, 97, 99, 107, 101, 100]], high = [], medium = []\<rparr>\<rparr>"

text \<open>A classification reply that parses, with a number where the intent should be.\<close>

definition numeric_intent :: ai_client where
  "numeric_intent = healthy_ai\<lparr>intent_reply := Parsed (JObject [(''intent'', JNumber 5)])\<rparr>"

text \<open>
  The intent the classification \<^verbatim>\<open>try\<close>/\<^verbatim>\<open>catch\<close> leaves behind: the classified
  intent when the success step is delivered, QUERY when anything in the block throws.
\<close>

definition resolved_intent :: "exn + IntentType \<Rightarrow> callback \<Rightarrow> trace \<Rightarrow> IntentType" where
  "resolved_intent c cb tr =
     (case c of
        Inl e \<Rightarrow> QUERY
      | Inr i \<Rightarrow>
          if cb tr \<lparr>agent = MASTER, message = Identified_Intent i, status = success\<rparr> then i
          else QUERY)"

text \<open>The object a run returns, from the configuration and the intent it worked with.\<close>

definition pipeline_result ::
  "ai_client \<Rightarrow> string \<Rightarrow> string \<Rightarrow> char DomainConfig \<Rightarrow> IntentType \<Rightarrow> PipelineResult"
  where
  "pipeline_result ai userMessage domainId cfg i =
     (let ra = calculateRiskScore userMessage cfg;
          slaStatus = checkSLAStatus i (level ra) cfg;
          gen = generateResponse (response_reply ai);
          val = validateResponse (validation_reply ai)
      in \<lparr>response = fst gen,
          suggestedActions = snd gen,
          metadata = \<lparr>riskScore = score ra,
            riskLevel = level ra,
            slaBreachPredicted = breachPredicted slaStatus,
            slaTargetHours = timeToResolve slaStatus,
            slaReason = reason slaStatus,
            intent = i,
            domain = domainId,
            notifiedTeams = determineNotifiedTeams i (level ra) domainId,
            validationPassed = fst val,
            validationReason = snd val\<rparr>\<rparr>)"

text \<open>
  A log of \<open>n\<close> stages in the specification's words, read off the statuses of the
  steps: \<open>n\<close> times a pending entry step followed by a success or warning exit step,
  and nothing else.
\<close>

fun stage_log :: "nat \<Rightarrow> Status list \<Rightarrow> bool" where
  "stage_log 0 sts = (sts = [])"
| "stage_log (Suc n) (a # b # sts) =
     (a = pending \<and> (b = success \<or> b = warning) \<and> stage_log n sts)"
| "stage_log (Suc n) sts = False"

text \<open>
  The eight steps that follow the classification in a run that returns, from the
  configuration and the intent the run works with.
\<close>

definition later_steps ::
  "ai_client \<Rightarrow> string \<Rightarrow> string \<Rightarrow> char DomainConfig \<Rightarrow> IntentType \<Rightarrow> trace" where
  "later_steps ai userMessage domainId cfg i =
     (let ra = calculateRiskScore userMessage cfg;
          slaStatus = checkSLAStatus i (level ra) cfg;
          teams = determineNotifiedTeams i (level ra) domainId;
          val = validateResponse (validation_reply ai)
      in [\<lparr>agent = RISK, message = Calculating_risk_score, status = pending\<rparr>,
          \<lparr>agent = RISK, message = Risk_Level (level ra) (score ra),
           status = (if level ra = CRITICAL \<or> level ra = HIGH then warning else success)\<rparr>,
          \<lparr>agent = SLA, message = Checking_SLA_thresholds, status = pending\<rparr>,
          \<lparr>agent = SLA,
           message = (if breachPredicted slaStatus
                      then SLA_breach_WARNING (timeToResolve slaStatus)
                      else SLA_Status_Normal (timeToResolve slaStatus)),
           status = (if breachPredicted slaStatus then warning else success)\<rparr>,
          \<lparr>agent = SYSTEM, message = Routing_to teams, status = pending\<rparr>,
          \<lparr>agent = SYSTEM, message = Routed_to teams, status = success\<rparr>,
          \<lparr>agent = VALIDATION, message = Validating_response_quality, status = pending\<rparr>,
          \<lparr>agent = VALIDATION,
           message = (if truthy (fst val) then Verified (snd val) else FLAGGED (snd val)),
           status = (if truthy (fst val) then success else warning)\<rparr>])"

section \<open>Basic facts\<close>

lemma starts_with_prefix: "starts_with s w = prefix w s"
  by (induction s w rule: starts_with.induct) auto

lemma includes_str_sublist: "includes_str s w = sublist w s"
  by (induction s) (auto simp: sublist_Cons_right starts_with_prefix)

lemma add_hits_eq: "add_hits t p kws s0 = s0 + p * length (filter (includes_str t) kws)"
  unfolding add_hits_def by (induction kws arbitrary: s0) auto

lemma score_le_100: "score (calculateRiskScore text d) \<le> 100"
  by (simp add: calculateRiskScore_def calculateRiskScore_with_def Let_def)

lemma set_add_not_empty: "set_add x teams \<noteq> []"
  by (auto simp: set_add_def)

lemma set_set_add: "set (set_add x teams) = insert x (set teams)"
  by (auto simp: set_add_def)

lemma distinct_set_add: "distinct (set_add x teams) = distinct teams"
  by (simp add: set_add_def)

lemma set_set_delete: "set (set_delete x teams) = set teams - {x}"
  by (auto simp: set_delete_def)

lemma distinct_set_delete: "distinct teams \<Longrightarrow> distinct (set_delete x teams)"
  by (simp add: set_delete_def distinct_removeAll)

lemma teams_not_empty: "determineNotifiedTeams i r d \<noteq> []"
  by (simp add: determineNotifiedTeams_def Let_def set_add_not_empty)

lemma teams_distinct: "distinct (determineNotifiedTeams i r d)"
  by (simp add: determineNotifiedTeams_def Let_def distinct_set_add distinct_set_delete)

lemma teams_low_unknown: "determineNotifiedTeams UNKNOWN LOW d = [''L1 Support'']"
  by (simp add: determineNotifiedTeams_def Let_def set_add_def)

lemma teams_critical: "''L1 Support'' \<notin> set (determineNotifiedTeams i CRITICAL d)"
  by (simp add: determineNotifiedTeams_def Let_def set_set_add set_set_delete)

lemma io_bind_Inr:
  "io_bind m f tr = (Inr r, tr') \<longleftrightarrow> (\<exists>x tr1. m tr = (Inr x, tr1) \<and> f x tr1 = (Inr r, tr'))"
  by (cases "m tr") (auto simp: io_bind_def split: sum.splits)

lemma onStep_Inr: "onStep cb step tr = (Inr x, tr1) \<longleftrightarrow> cb tr step \<and> tr1 = tr @ [step]"
  by (auto simp: onStep_def)

lemma io_of_Inr: "io_of v tr = (Inr x, tr1) \<longleftrightarrow> v = Inr x \<and> tr1 = tr"
  by (auto simp: io_of_def)

lemma io_return_Inr: "io_return y tr = (Inr x, tr1) \<longleftrightarrow> x = y \<and> tr1 = tr"
  by (auto simp: io_return_def)

lemma onStep_returns: "\<forall>tr step. cb tr step \<Longrightarrow> onStep cb step tr = (Inr (), tr @ [step])"
  by (simp add: onStep_def)

text \<open>The classification block never throws: it always leaves an intent behind.\<close>

lemma classification_block:
  "fst (io_catch
         (io_bind (io_of c) (\<lambda>i.
          io_bind (onStep cb
            \<lparr>agent = MASTER, message = Identified_Intent i, status = success\<rparr>) (\<lambda>_.
          io_return i)))
         (\<lambda>e. io_return QUERY) tr) = Inr (resolved_intent c cb tr)"
  by (cases c)
     (simp_all add: io_catch_def io_bind_def io_of_def onStep_def io_return_def
        resolved_intent_def)

lemma classification_block_Inr:
  "io_catch
         (io_bind (io_of c) (\<lambda>i.
          io_bind (onStep cb
            \<lparr>agent = MASTER, message = Identified_Intent i, status = success\<rparr>) (\<lambda>_.
          io_return i)))
         (\<lambda>e. io_return QUERY) tr = (Inr x, tr1) \<Longrightarrow> x = resolved_intent c cb tr"
  using classification_block [of c cb tr] by simp

text \<open>What a run that returns has returned, whatever the callback does.\<close>

lemma run_InrD:
  assumes "processUserRequest ai um h domainId cb tr = (Inr r, tr')"
  shows "\<exists>cfg. DOMAINS domainId = Some cfg
      \<and> renderable (fst (generateResponse (response_reply ai)))
      \<and> renderable (snd (validateResponse (validation_reply ai)))
      \<and> r = pipeline_result ai um domainId cfg
            (resolved_intent (classify (intent_reply ai)) cb
               (tr @ [\<lparr>agent = MASTER, message = Analyzing_intent, status = pending\<rparr>]))"
  using assms
  by (auto simp add: processUserRequest_def io_bind_Inr onStep_Inr io_of_Inr io_return_Inr
        Let_def pipeline_result_def
      split: option.splits if_splits dest!: classification_block_Inr)

text \<open>
  With a registered domain, a callback that returns and replies that can be embedded
  in a template literal, the run returns.
\<close>

lemma run_returns:
  assumes cb: "\<forall>tr step. cb tr step" and "DOMAINS domainId = Some cfg"
    and "renderable (fst (generateResponse (response_reply ai)))"
    and "renderable (snd (validateResponse (validation_reply ai)))"
  shows "\<exists>r tr'. processUserRequest ai um h domainId cb tr = (Inr r, tr')"
  using assms(2-)
  by (cases "classify (intent_reply ai)")
     (simp_all add: processUserRequest_def onStep_returns [OF cb] io_bind_def io_of_def
        io_return_def io_catch_def Let_def)

text \<open>After a failed call the fallback values can always be embedded.\<close>

lemma failed_validation: "r = Rejected \<or> r = Unparseable \<Longrightarrow>
    validateResponse r = (JBool True, JString ''Validation service unavailable.'')"
  by (auto simp: validateResponse_def)

lemma failed_generation: "r = Rejected \<or> r = Unparseable \<Longrightarrow>
    generateResponse r =
      (JString ''I encountered a temporary issue processing your request. Please try again.'', [])"
  by (auto simp: generateResponse_def)

lemma failed_classification: "r = Rejected \<or> r = Unparseable \<Longrightarrow>
    resolved_intent (classify r) cb tr = QUERY"
  by (auto simp: classify_def resolved_intent_def)

text \<open>
  When the classification block assigns an intent without throwing: the call is not
  rejected, the reply parses to a value other than \<^verbatim>\<open>null\<close>, and the value read
  from its intent field (the empty string when the field is absent or falsy) is a
  string. A reply that parses can still make the block throw.
\<close>

lemma classify_Inr_iff:
  "(\<exists>i. classify r = Inr i) \<longleftrightarrow>
     (\<exists>v p s. r = Parsed v \<and> get_prop v ''intent'' = Inr p \<and> js_or p (JString []) = JString s)"
  by (auto simp: classify_def split: outcome.splits sum.splits json.splits option.splits)

lemma classify_numeric_intent: "classify (intent_reply numeric_intent) = Inl TypeError"
  by (simp add: numeric_intent_def classify_def)

text \<open>
  A phrase that lowercasing leaves alone can be lowercased before it is matched, or not:
  the hits are the same.
\<close>

lemma filter_lowercase_phrases:
  "list_all (\<lambda>w. lc w = w) ws \<Longrightarrow>
     filter (\<lambda>w. includes_str t (lc w)) ws = filter (includes_str t) ws"
  by (induction ws) auto

text \<open>On the two shipped domains every keyword is lowercase.\<close>

lemma shipped_phrases_lowercase:
  "list_all (\<lambda>w. toLowerCase w = w)
     (critical (riskKeywords bny) @ high (riskKeywords bny) @ medium (riskKeywords bny))"
  "list_all (\<lambda>w. toLowerCase w = w)
     (critical (riskKeywords zepto) @ high (riskKeywords zepto) @ medium (riskKeywords zepto))"
  by code_simp+

text \<open>A negative verdict stays negative, and the reason it leaves can be embedded.\<close>

lemma negative_verdict_validate:
  assumes "get_prop v ''isValid'' = Inr (Some (JBool False))"
  shows "fst (validateResponse (Parsed v)) = JBool False
    \<and> renderable (snd (validateResponse (Parsed v)))"
  using assms
  by (cases v) (auto simp: validateResponse_def Let_def)

text \<open>
  The steps of a run with a callback that returns: ten when the classification block
  completes, nine when it falls into its \<^verbatim>\<open>catch\<close>, which emits no step.
\<close>

lemma run_trace:
  assumes cb: "\<forall>tr step. cb tr step" and "DOMAINS domainId = Some cfg"
    and "renderable (fst (generateResponse (response_reply ai)))"
    and "renderable (snd (validateResponse (validation_reply ai)))"
    and "classify (intent_reply ai) = Inr i"
  shows "snd (processUserRequest ai um h domainId cb tr) =
     tr @ [\<lparr>agent = MASTER, message = Analyzing_intent, status = pending\<rparr>,
           \<lparr>agent = MASTER, message = Identified_Intent i, status = success\<rparr>]
        @ later_steps ai um domainId cfg i"
  using assms(2-)
  by (simp add: processUserRequest_def onStep_returns [OF cb] io_bind_def io_of_def
        io_return_def io_catch_def Let_def later_steps_def)

lemma run_trace_classification_failed:
  assumes cb: "\<forall>tr step. cb tr step" and "DOMAINS domainId = Some cfg"
    and "renderable (fst (generateResponse (response_reply ai)))"
    and "renderable (snd (validateResponse (validation_reply ai)))"
    and "classify (intent_reply ai) = Inl e"
  shows "snd (processUserRequest ai um h domainId cb tr) =
     tr @ [\<lparr>agent = MASTER, message = Analyzing_intent, status = pending\<rparr>]
        @ later_steps ai um domainId cfg QUERY"
  using assms(2-)
  by (simp add: processUserRequest_def onStep_returns [OF cb] io_bind_def io_of_def
        io_return_def io_catch_def Let_def later_steps_def)

lemma length_later_steps: "length (later_steps ai um domainId cfg i) = 8"
  by (simp add: later_steps_def Let_def)

lemma later_steps_kinds:
  "map (\<lambda>e. (agent e, status e)) (later_steps ai um domainId cfg i) =
     [(RISK, pending),
      (RISK, if level (calculateRiskScore um cfg) = CRITICAL
               \<or> level (calculateRiskScore um cfg) = HIGH then warning else success),
      (SLA, pending),
      (SLA, if breachPredicted (checkSLAStatus i (level (calculateRiskScore um cfg)) cfg)
            then warning else success),
      (SYSTEM, pending), (SYSTEM, success), (VALIDATION, pending),
      (VALIDATION, if truthy (fst (validateResponse (validation_reply ai)))
                   then success else warning)]"
  by (simp add: later_steps_def Let_def)

lemma stage_log_length: "stage_log n sts \<Longrightarrow> length sts = 2 * n"
  by (induction n sts rule: stage_log.induct) auto

text \<open>The concrete inputs meet the conditions of the lemmas above.\<close>

lemma always_returns_all: "\<forall>tr step. always_returns tr step"
  by (simp add: always_returns_def)

lemma healthy_generation:
  "generateResponse (response_reply healthy_ai) =
     (JString ''A specialist will contact you shortly.'', [])"
  by (simp add: healthy_ai_def generateResponse_def)

lemma healthy_validation:
  "validateResponse (validation_reply healthy_ai) =
     (JBool True, JString ''Relevant and accurate.'')"
  by (simp add: healthy_ai_def validateResponse_def)

lemma healthy_classification: "classify (intent_reply healthy_ai) = Inr COMPLAINT"
  by (simp add: healthy_ai_def classify_def)


section \<open>The risk calculator\<close>

text \<open>
  Claim C2. For every text and every configuration (its keyword lists hold lowercase
  phrases: lowercasing leaves each of them as it is), the score is the sum of 40 per
  critical, 20 per high and 10 per medium phrase whose lowercase form occurs in the
  lowercased text, cut off at 100, so it lies between 0 and 100. Every entry of a keyword
  list counts once however often it occurs in the text, and the tiers add up. The score
  is a function of the text and the configuration alone. This holds whatever the type of
  code unit and whatever \<^verbatim>\<open>toLowerCase\<close> does to the text.
\<close>

theorem calculateRiskScore_sum:
  assumes "list_all (\<lambda>w. lc w = w)
     (critical (riskKeywords d) @ high (riskKeywords d) @ medium (riskKeywords d))"
  shows "score (calculateRiskScore_with lc text d) =
     min 100
       (40 * length (filter (\<lambda>w. includes_str (lc text) (lc w)) (critical (riskKeywords d)))
        + 20 * length (filter (\<lambda>w. includes_str (lc text) (lc w)) (high (riskKeywords d)))
        + 10 * length (filter (\<lambda>w. includes_str (lc text) (lc w)) (medium (riskKeywords d))))
   \<and> 0 \<le> score (calculateRiskScore_with lc text d)
   \<and> score (calculateRiskScore_with lc text d) \<le> 100"
proof -
  from assms have "list_all (\<lambda>w. lc w = w) (critical (riskKeywords d))"
    and "list_all (\<lambda>w. lc w = w) (high (riskKeywords d))"
    and "list_all (\<lambda>w. lc w = w) (medium (riskKeywords d))"
    by simp_all
  then show ?thesis
    by (simp add: calculateRiskScore_with_def add_hits_eq Let_def filter_lowercase_phrases)
qed

text \<open>
  On the zepto domain, whose phrases are lowercase, three high phrases (late, driver,
  never arrived) give 60.
\<close>

theorem calculateRiskScore_sum_witness:
  "list_all (\<lambda>w. toLowerCase w = w)
     (critical (riskKeywords zepto) @ high (riskKeywords zepto) @ medium (riskKeywords zepto))
   \<and> score (calculateRiskScore_with toLowerCase
              ''my order is late and driver never arrived'' zepto) = 60"
proof -
  have h: "list_all (\<lambda>w. toLowerCase w = w)
     (critical (riskKeywords zepto) @ high (riskKeywords zepto) @ medium (riskKeywords zepto))"
    by (rule shipped_phrases_lowercase(2))
  have "score (calculateRiskScore_with toLowerCase
              ''my order is late and driver never arrived'' zepto) =
     min 100
       (40 * length (filter (\<lambda>w. includes_str
                 (toLowerCase ''my order is late and driver never arrived'') (toLowerCase w))
               (critical (riskKeywords zepto)))
        + 20 * length (filter (\<lambda>w. includes_str
                 (toLowerCase ''my order is late and driver never arrived'') (toLowerCase w))
               (high (riskKeywords zepto)))
        + 10 * length (filter (\<lambda>w. includes_str
                 (toLowerCase ''my order is late and driver never arrived'') (toLowerCase w))
               (medium (riskKeywords zepto))))"
    using calculateRiskScore_sum [OF h, of "''my order is late and driver never arrived''"]
    by (rule conjunct1)
  also have "\<dots> = 60"
    by code_simp
  finally have "score (calculateRiskScore_with toLowerCase
              ''my order is late and driver never arrived'' zepto) = 60" .
  with h show ?thesis
    by (rule conjI)
qed

text \<open>
  The same holds outside ASCII: the phrase \<open>hacked\<close> is found in the text written with
  the Kelvin sign, which \<^verbatim>\<open>toLowerCase\<close> maps to \<open>k\<close>.
\<close>

lemma calculateRiskScore_kelvin:
  "score (calculateRiskScore_with lower_units kelvin_text hacked_cfg) = 40"
  by code_simp

text \<open>
  Claim C3. The level returned with the score is fixed by the score: CRITICAL from 80,
  HIGH from 50 to 79, MEDIUM from 20 to 49, LOW below 20. The four ranges are disjoint
  and cover 0 to 100.
\<close>

theorem calculateRiskScore_level:
  "(level (calculateRiskScore text d) = CRITICAL) = (80 \<le> score (calculateRiskScore text d))
   \<and> (level (calculateRiskScore text d) = HIGH) =
       (50 \<le> score (calculateRiskScore text d) \<and> score (calculateRiskScore text d) < 80)
   \<and> (level (calculateRiskScore text d) = MEDIUM) =
       (20 \<le> score (calculateRiskScore text d) \<and> score (calculateRiskScore text d) < 50)
   \<and> (level (calculateRiskScore text d) = LOW) = (score (calculateRiskScore text d) < 20)
   \<and> score (calculateRiskScore text d) \<le> 100"
  by (simp add: calculateRiskScore_def calculateRiskScore_with_def Let_def)

theorem calculateRiskScore_level_witness:
  "score (calculateRiskScore ''There is a fraud on my account, emergency, unauthorized wire!'' bny) = 100
   \<and> level (calculateRiskScore ''There is a fraud on my account, emergency, unauthorized wire!'' bny) = CRITICAL"
proof -
  have s: "score (calculateRiskScore ''There is a fraud on my account, emergency, unauthorized wire!'' bny) = 100"
    by code_simp
  with calculateRiskScore_level
         [of "''There is a fraud on my account, emergency, unauthorized wire!''" bny]
  show ?thesis by simp
qed

section \<open>The SLA estimator\<close>

text \<open>
  Claim C4. With isUrgent standing for "the level is HIGH or CRITICAL, or the intent is
  COMPLAINT", the target is the domain's urgent threshold when isUrgent and the standard
  threshold otherwise, and a breach is predicted exactly when isUrgent holds and the
  target is below one hour.
\<close>

theorem checkSLAStatus_target:
  "timeToResolve (checkSLAStatus i r d) =
     (if r = HIGH \<or> r = CRITICAL \<or> i = COMPLAINT then urgent (slaThresholds d)
      else standard (slaThresholds d))
   \<and> breachPredicted (checkSLAStatus i r d) =
     ((r = HIGH \<or> r = CRITICAL \<or> i = COMPLAINT) \<and> timeToResolve (checkSLAStatus i r d) < 1)"
  by (simp add: checkSLAStatus_def Let_def)

theorem checkSLAStatus_target_witness:
  "timeToResolve (checkSLAStatus QUERY HIGH zepto) = 0.25
   \<and> breachPredicted (checkSLAStatus QUERY HIGH zepto)
   \<and> timeToResolve (checkSLAStatus QUERY LOW bny) = 24
   \<and> \<not> breachPredicted (checkSLAStatus QUERY LOW bny)"
  using checkSLAStatus_target [of QUERY HIGH zepto] checkSLAStatus_target [of QUERY LOW bny]
  by (simp add: zepto_def bny_def)

text \<open>
  Claim C5, with the texts the code returns. The reason follows the precedence: level
  CRITICAL gives "Critical Risk Score (>80)"; otherwise level HIGH gives
  "High Risk Score (>50)"; otherwise intent COMPLAINT gives "Complaint Priority";
  otherwise isUrgent gives "Urgent Intent Classification"; otherwise the reason is
  "Standard workflow applies".
\<close>

theorem checkSLAStatus_reason:
  "reason (checkSLAStatus i r d) =
     (if r = CRITICAL then ''Critical Risk Score (>80)''
      else if r = HIGH then ''High Risk Score (>50)''
      else if i = COMPLAINT then ''Complaint Priority''
      else if r = HIGH \<or> r = CRITICAL \<or> i = COMPLAINT then ''Urgent Intent Classification''
      else ''Standard workflow applies'')"
  by (simp add: checkSLAStatus_def Let_def)

theorem checkSLAStatus_reason_witness:
  "reason (checkSLAStatus COMPLAINT HIGH bny) = ''High Risk Score (>50)''
   \<and> reason (checkSLAStatus COMPLAINT LOW bny) = ''Complaint Priority''
   \<and> reason (checkSLAStatus QUERY LOW bny) = ''Standard workflow applies''"
  using checkSLAStatus_reason [of COMPLAINT HIGH bny] checkSLAStatus_reason [of COMPLAINT LOW bny]
    checkSLAStatus_reason [of QUERY LOW bny]
  by simp

text \<open>
  The texts of claim C5 are not the code's: at level CRITICAL the reason is
  "Critical Risk Score (>80)", not "Critical Risk Score".
\<close>

theorem checkSLAStatus_reason_text:
  "reason (checkSLAStatus QUERY CRITICAL bny) = ''Critical Risk Score (>80)''
   \<and> reason (checkSLAStatus QUERY CRITICAL bny) \<noteq> ''Critical Risk Score''"
  by (simp add: checkSLAStatus_def Let_def)

text \<open>
  Claim C10. The estimator never returns "Urgent Intent Classification": whenever
  isUrgent holds, one of the three earlier branches has already chosen the reason. The
  reason is always one of the other four texts.
\<close>

theorem checkSLAStatus_never_urgent_intent:
  "reason (checkSLAStatus i r d) \<noteq> ''Urgent Intent Classification''
   \<and> reason (checkSLAStatus i r d) \<in>
       {''Critical Risk Score (>80)'', ''High Risk Score (>50)'', ''Complaint Priority'',
        ''Standard workflow applies''}"
  by (simp add: checkSLAStatus_def Let_def)

theorem checkSLAStatus_never_urgent_intent_witness:
  "reason (checkSLAStatus COMPLAINT MEDIUM zepto) \<noteq> ''Urgent Intent Classification''
   \<and> reason (checkSLAStatus COMPLAINT MEDIUM zepto) = ''Complaint Priority''"
proof -
  have "reason (checkSLAStatus COMPLAINT MEDIUM zepto) = ''Complaint Priority''"
    by (simp add: checkSLAStatus_def Let_def)
  with checkSLAStatus_never_urgent_intent [of COMPLAINT MEDIUM zepto] show ?thesis
    by simp
qed

section \<open>Team routing\<close>

text \<open>
  Claim C6. For every intent, risk level and domain id the routing result is a
  non-empty set of teams (a list without repetition); at LOW risk with an unknown intent
  it is the default team alone, whatever the domain; and at CRITICAL risk the default
  team is not in the result.
\<close>

theorem determineNotifiedTeams_default_team:
  "determineNotifiedTeams i r d \<noteq> []
   \<and> distinct (determineNotifiedTeams i r d)
   \<and> determineNotifiedTeams UNKNOWN LOW d = [''L1 Support'']
   \<and> ''L1 Support'' \<notin> set (determineNotifiedTeams i CRITICAL d)"
  by (simp add: teams_not_empty teams_distinct teams_low_unknown teams_critical)

theorem determineNotifiedTeams_default_team_witness:
  "determineNotifiedTeams COMPLAINT CRITICAL ''zepto'' =
     [''Legal & Compliance'', ''Senior Leadership'', ''Crisis Response'',
      ''Customer Retention'', ''Quality Assurance'', ''Logistics Ops'', ''Hub Manager'']
   \<and> ''L1 Support'' \<notin> set (determineNotifiedTeams COMPLAINT CRITICAL ''zepto'')"
proof -
  have "determineNotifiedTeams COMPLAINT CRITICAL ''zepto'' =
     [''Legal & Compliance'', ''Senior Leadership'', ''Crisis Response'',
      ''Customer Retention'', ''Quality Assurance'', ''Logistics Ops'', ''Hub Manager'']"
    by code_simp
  with determineNotifiedTeams_default_team [of COMPLAINT CRITICAL "''zepto''"]
  show ?thesis by simp
qed

section \<open>The pipeline\<close>

text \<open>
  Claim C1, as the code has it. For every message and history, every domain id that is
  in the registry and every callback that returns normally, when the reply text and the
  validation reason the run ends up with can be embedded in a template literal (every
  string, number, boolean and \<^verbatim>\<open>null\<close> can), the run returns a complete result
  and throws nothing: the domain id is echoed, the score is at most 100 and the team list
  is not empty. A failed classification call (rejected, or a reply that does not parse)
  gives intent QUERY; a failed generation call gives the fixed text "I encountered a
  temporary issue processing your request. Please try again." and no actions; a failed
  validation call leaves validationPassed true and the reply text as generated.
\<close>

theorem processUserRequest_closed_boundary:
  assumes "DOMAINS domainId = Some cfg"
    and "\<forall>tr step. onStepUpdate tr step"
    and "renderable (fst (generateResponse (response_reply ai)))"
    and "renderable (snd (validateResponse (validation_reply ai)))"
  shows "\<exists>r tr'. processUserRequest ai userMessage history domainId onStepUpdate tr = (Inr r, tr')
     \<and> domain (metadata r) = domainId
     \<and> riskScore (metadata r) \<le> 100
     \<and> notifiedTeams (metadata r) \<noteq> []
     \<and> (intent_reply ai = Rejected \<or> intent_reply ai = Unparseable
          \<longrightarrow> intent (metadata r) = QUERY)
     \<and> (response_reply ai = Rejected \<or> response_reply ai = Unparseable
          \<longrightarrow> response r =
                JString ''I encountered a temporary issue processing your request. Please try again.''
              \<and> suggestedActions r = [])
     \<and> (validation_reply ai = Rejected \<or> validation_reply ai = Unparseable
          \<longrightarrow> validationPassed (metadata r) = JBool True
              \<and> response r = fst (generateResponse (response_reply ai)))"
proof -
  from run_returns [OF assms(2) assms(1) assms(3) assms(4)]
  obtain r tr' where run: "processUserRequest ai userMessage history domainId onStepUpdate tr = (Inr r, tr')"
    by blast
  from run_InrD [OF run] obtain cfg' where
    r: "r = pipeline_result ai userMessage domainId cfg'
            (resolved_intent (classify (intent_reply ai)) onStepUpdate
               (tr @ [\<lparr>agent = MASTER, message = Analyzing_intent, status = pending\<rparr>]))"
    by blast
  have "domain (metadata r) = domainId"
    by (simp add: r pipeline_result_def Let_def)
  moreover have "riskScore (metadata r) \<le> 100"
    by (simp add: r pipeline_result_def Let_def score_le_100)
  moreover have "notifiedTeams (metadata r) \<noteq> []"
    by (simp add: r pipeline_result_def Let_def teams_not_empty)
  moreover have "intent_reply ai = Rejected \<or> intent_reply ai = Unparseable
          \<longrightarrow> intent (metadata r) = QUERY"
    by (simp add: r pipeline_result_def Let_def failed_classification)
  moreover have "response_reply ai = Rejected \<or> response_reply ai = Unparseable
          \<longrightarrow> response r =
                JString ''I encountered a temporary issue processing your request. Please try again.''
              \<and> suggestedActions r = []"
    by (simp add: r pipeline_result_def Let_def failed_generation)
  moreover have "validation_reply ai = Rejected \<or> validation_reply ai = Unparseable
          \<longrightarrow> validationPassed (metadata r) = JBool True
              \<and> response r = fst (generateResponse (response_reply ai))"
    by (simp add: r pipeline_result_def Let_def failed_validation)
  ultimately show ?thesis
    using run by blast
qed

text \<open>The run in which all three calls are rejected, on the bny domain.\<close>

theorem processUserRequest_closed_boundary_witness:
  "\<exists>r tr'. processUserRequest all_rejected ''my card was hacked'' [] ''bny'' always_returns [] = (Inr r, tr')
     \<and> domain (metadata r) = ''bny''
     \<and> intent (metadata r) = QUERY
     \<and> response r =
         JString ''I encountered a temporary issue processing your request. Please try again.''
     \<and> suggestedActions r = []
     \<and> validationPassed (metadata r) = JBool True"
proof -
  have d: "DOMAINS ''bny'' = Some bny"
    by (simp add: DOMAINS_def)
  have cb: "\<forall>tr step. always_returns tr step"
    by (simp add: always_returns_def)
  have g: "renderable (fst (generateResponse (response_reply all_rejected)))"
    by (simp add: all_rejected_def generateResponse_def)
  have v: "renderable (snd (validateResponse (validation_reply all_rejected)))"
    by (simp add: all_rejected_def validateResponse_def)
  from processUserRequest_closed_boundary [OF d cb g v, of "''my card was hacked''" "[]" "[]"]
  show ?thesis
    by (simp add: all_rejected_def generateResponse_def) blast
qed

text \<open>
  Claim C1 as the specification words it ("for every domain id") fails on an id that
  is not registered: \<^verbatim>\<open>DOMAINS[domainId]\<close> is \<^verbatim>\<open>undefined\<close>, and building the
  classification prompt reads \<^verbatim>\<open>domain.name\<close> outside any \<^verbatim>\<open>try\<close>, so the run
  throws a TypeError to its caller although every call to the service would succeed.
\<close>

theorem processUserRequest_unknown_domain:
  "fst (processUserRequest healthy_ai ''What are my current fees?'' [] ''acme'' always_returns [])
     = Inl TypeError"
  by code_simp

text \<open>
  The two other conditions are needed as well. A callback that throws on its first call
  ends the run there; and a reason that cannot be embedded in the last step's message
  makes the run throw after the validation has approved the reply.
\<close>

lemma processUserRequest_throwing_callback:
  "processUserRequest healthy_ai ''What are my current fees?'' [] ''bny'' never_returns [] =
     (Inl CallbackError, [\<lparr>agent = MASTER, message = Analyzing_intent, status = pending\<rparr>])"
  by (simp add: processUserRequest_def io_bind_def onStep_def never_returns_def)

lemma processUserRequest_unrenderable_reason:
  "processUserRequest odd_reason ''What are my current fees?'' [] ''bny'' always_returns []
     \<noteq> (Inr r, tr')"
proof
  assume "processUserRequest odd_reason ''What are my current fees?'' [] ''bny'' always_returns []
     = (Inr r, tr')"
  from run_InrD [OF this]
  have "renderable (snd (validateResponse (validation_reply odd_reason)))"
    by blast
  then show False
    by (simp add: odd_reason_def validateResponse_def)
qed

text \<open>
  Claim C7, with the text the code assigns. When the validation call fails (the request
  is rejected or the reply does not parse), the result of a run that returns has
  validationPassed true, validationReason "Validation service unavailable." (with a
  full stop), and the reply text and actions exactly as generated; and the failure does
  not keep the run from returning: with a registered domain, a callback that returns and
  a reply text that can be embedded, the run returns.
\<close>

theorem validation_failure_fails_open:
  assumes "validation_reply ai = Rejected \<or> validation_reply ai = Unparseable"
  shows "(processUserRequest ai userMessage history domainId onStepUpdate tr = (Inr r, tr') \<longrightarrow>
            validationPassed (metadata r) = JBool True
          \<and> validationReason (metadata r) = JString ''Validation service unavailable.''
          \<and> response r = fst (generateResponse (response_reply ai))
          \<and> suggestedActions r = snd (generateResponse (response_reply ai)))
       \<and> (DOMAINS domainId \<noteq> None \<and> (\<forall>t step. onStepUpdate t step)
            \<and> renderable (fst (generateResponse (response_reply ai))) \<longrightarrow>
          (\<exists>r2 tr2. processUserRequest ai userMessage history domainId onStepUpdate tr = (Inr r2, tr2)))"
proof (intro conjI impI)
  assume run: "processUserRequest ai userMessage history domainId onStepUpdate tr = (Inr r, tr')"
  from run_InrD [OF run] obtain cfg i where r: "r = pipeline_result ai userMessage domainId cfg i"
    by blast
  show "validationPassed (metadata r) = JBool True"
    by (simp add: r pipeline_result_def Let_def failed_validation [OF assms])
  show "validationReason (metadata r) = JString ''Validation service unavailable.''"
    by (simp add: r pipeline_result_def Let_def failed_validation [OF assms])
  show "response r = fst (generateResponse (response_reply ai))"
    by (simp add: r pipeline_result_def Let_def)
  show "suggestedActions r = snd (generateResponse (response_reply ai))"
    by (simp add: r pipeline_result_def Let_def)
next
  assume a: "DOMAINS domainId \<noteq> None \<and> (\<forall>t step. onStepUpdate t step)
            \<and> renderable (fst (generateResponse (response_reply ai)))"
  then obtain cfg where d: "DOMAINS domainId = Some cfg"
    by blast
  have v: "renderable (snd (validateResponse (validation_reply ai)))"
    by (simp add: failed_validation [OF assms])
  from a have cb: "\<forall>t step. onStepUpdate t step" and g: "renderable (fst (generateResponse (response_reply ai)))"
    by simp_all
  from run_returns [OF cb d g v]
  show "\<exists>r2 tr2. processUserRequest ai userMessage history domainId onStepUpdate tr = (Inr r2, tr2)" .
qed

theorem validation_failure_fails_open_witness:
  "\<exists>r tr'. processUserRequest validation_down ''What are my current fees?'' [] ''bny'' always_returns [] = (Inr r, tr')
     \<and> validationPassed (metadata r) = JBool True
     \<and> validationReason (metadata r) = JString ''Validation service unavailable.''
     \<and> response r = JString ''A specialist will contact you shortly.''"
proof -
  have f: "validation_reply validation_down = Rejected \<or> validation_reply validation_down = Unparseable"
    by (simp add: validation_down_def)
  have g: "generateResponse (response_reply validation_down) =
      (JString ''A specialist will contact you shortly.'', [])"
    by (simp add: validation_down_def healthy_ai_def generateResponse_def)
  note T = validation_failure_fails_open [OF f, where userMessage = "''What are my current fees?''"
      and history = "[]" and domainId = "''bny''" and onStepUpdate = always_returns and tr = "[]"]
  from T [THEN conjunct2] obtain r tr' where
    run: "processUserRequest validation_down ''What are my current fees?'' [] ''bny'' always_returns [] = (Inr r, tr')"
    by (auto simp: DOMAINS_def always_returns_def g)
  from T [THEN conjunct1, of r tr'] run g show ?thesis
    by auto
qed

text \<open>
  The reason of claim C7 is not the code's: after a rejected validation call the reason
  is "Validation service unavailable." and not "Validation service unavailable".
\<close>

theorem validation_failure_reason_text:
  "fst (processUserRequest validation_down ''What are my current fees?'' [] ''bny'' always_returns [])
     = Inr (pipeline_result validation_down ''What are my current fees?'' ''bny'' bny COMPLAINT)
   \<and> validationReason (metadata
         (pipeline_result validation_down ''What are my current fees?'' ''bny'' bny COMPLAINT))
     = JString ''Validation service unavailable.''
   \<and> validationReason (metadata
         (pipeline_result validation_down ''What are my current fees?'' ''bny'' bny COMPLAINT))
     \<noteq> JString ''Validation service unavailable''"
proof -
  have d: "DOMAINS ''bny'' = Some bny"
    by (simp add: DOMAINS_def)
  have g: "renderable (fst (generateResponse (response_reply validation_down)))"
    by (simp add: validation_down_def healthy_ai_def generateResponse_def)
  have f: "validateResponse (validation_reply validation_down) =
      (JBool True, JString ''Validation service unavailable.'')"
    by (simp add: validation_down_def failed_validation)
  have v: "renderable (snd (validateResponse (validation_reply validation_down)))"
    by (simp add: f)
  have c: "resolved_intent (classify (intent_reply validation_down)) always_returns tr = COMPLAINT"
    for tr
    by (simp add: validation_down_def healthy_ai_def classify_def resolved_intent_def
          always_returns_def)
  from run_returns [OF always_returns_all d g v]
  obtain r tr' where run: "processUserRequest validation_down ''What are my current fees?'' []
      ''bny'' always_returns [] = (Inr r, tr')"
    by blast
  from run_InrD [OF run] obtain cfg where d': "DOMAINS ''bny'' = Some cfg"
    and r: "r = pipeline_result validation_down ''What are my current fees?'' ''bny'' cfg
            (resolved_intent (classify (intent_reply validation_down)) always_returns
               ([] @ [\<lparr>agent = MASTER, message = Analyzing_intent, status = pending\<rparr>]))"
    by blast
  from d d' have "cfg = bny"
    by simp
  with r c
  have "r = pipeline_result validation_down ''What are my current fees?'' ''bny'' bny COMPLAINT"
    by simp
  with run f show ?thesis
    by (simp add: pipeline_result_def Let_def)
qed

text \<open>
  Claim C8. When the validation reply is an object whose isValid is false, the result
  of a run that returns carries the reply text and the actions exactly as the generation
  stage left them and has validationPassed false; compared with the run of the same
  inputs under any other validation outcome, the result differs at most in
  validationPassed and validationReason. The negative verdict does not withhold the
  reply: with a registered domain, a callback that returns and a reply text that can be
  embedded, the run returns.
\<close>

theorem negative_verdict_metadata_only:
  assumes "validation_reply ai = Parsed v" and "get_prop v ''isValid'' = Inr (Some (JBool False))"
  shows "(processUserRequest ai userMessage history domainId onStepUpdate tr = (Inr r, tr') \<longrightarrow>
            response r = fst (generateResponse (response_reply ai))
          \<and> suggestedActions r = snd (generateResponse (response_reply ai))
          \<and> validationPassed (metadata r) = JBool False
          \<and> (\<forall>other r2 tr2.
                processUserRequest (ai\<lparr>validation_reply := other\<rparr>) userMessage history domainId
                  onStepUpdate tr = (Inr r2, tr2) \<longrightarrow>
                response r2 = response r \<and> suggestedActions r2 = suggestedActions r
              \<and> metadata r2 = (metadata r)\<lparr>validationPassed := validationPassed (metadata r2),
                    validationReason := validationReason (metadata r2)\<rparr>))
       \<and> (DOMAINS domainId \<noteq> None \<and> (\<forall>t step. onStepUpdate t step)
            \<and> renderable (fst (generateResponse (response_reply ai))) \<longrightarrow>
          (\<exists>r3 tr3. processUserRequest ai userMessage history domainId onStepUpdate tr = (Inr r3, tr3)))"
proof (intro conjI impI allI)
  assume run: "processUserRequest ai userMessage history domainId onStepUpdate tr = (Inr r, tr')"
  from run_InrD [OF run] obtain cfg where d: "DOMAINS domainId = Some cfg" and
    r: "r = pipeline_result ai userMessage domainId cfg
            (resolved_intent (classify (intent_reply ai)) onStepUpdate
               (tr @ [\<lparr>agent = MASTER, message = Analyzing_intent, status = pending\<rparr>]))"
    by blast
  show "response r = fst (generateResponse (response_reply ai))"
    by (simp add: r pipeline_result_def Let_def)
  show "suggestedActions r = snd (generateResponse (response_reply ai))"
    by (simp add: r pipeline_result_def Let_def)
  show "validationPassed (metadata r) = JBool False"
    using negative_verdict_validate [OF assms(2)]
    by (simp add: r pipeline_result_def Let_def assms(1))
  fix other r2 tr2
  assume run2: "processUserRequest (ai\<lparr>validation_reply := other\<rparr>) userMessage history domainId
                  onStepUpdate tr = (Inr r2, tr2)"
  from run_InrD [OF run2] d have
    r2: "r2 = pipeline_result (ai\<lparr>validation_reply := other\<rparr>) userMessage domainId cfg
            (resolved_intent (classify (intent_reply ai)) onStepUpdate
               (tr @ [\<lparr>agent = MASTER, message = Analyzing_intent, status = pending\<rparr>]))"
    by auto
  show "response r2 = response r"
    by (simp add: r r2 pipeline_result_def Let_def)
  show "suggestedActions r2 = suggestedActions r"
    by (simp add: r r2 pipeline_result_def Let_def)
  show "metadata r2 = (metadata r)\<lparr>validationPassed := validationPassed (metadata r2),
                    validationReason := validationReason (metadata r2)\<rparr>"
    by (simp add: r r2 pipeline_result_def Let_def)
next
  assume a: "DOMAINS domainId \<noteq> None \<and> (\<forall>t step. onStepUpdate t step)
            \<and> renderable (fst (generateResponse (response_reply ai)))"
  then obtain cfg where d: "DOMAINS domainId = Some cfg"
    by blast
  have v: "renderable (snd (validateResponse (validation_reply ai)))"
    using negative_verdict_validate [OF assms(2)] by (simp add: assms(1))
  from a have cb: "\<forall>t step. onStepUpdate t step" and g: "renderable (fst (generateResponse (response_reply ai)))"
    by simp_all
  from run_returns [OF cb d g v]
  show "\<exists>r3 tr3. processUserRequest ai userMessage history domainId onStepUpdate tr = (Inr r3, tr3)" .
qed

theorem negative_verdict_metadata_only_witness:
  "\<exists>r tr'. processUserRequest negative_verdict ''What are my current fees?'' [] ''bny''
       always_returns [] = (Inr r, tr')
     \<and> response r = JString ''A specialist will contact you shortly.''
     \<and> suggestedActions r = []
     \<and> validationPassed (metadata r) = JBool False"
proof -
  have p: "validation_reply negative_verdict = Parsed (JObject
     [(''isValid'', JBool False), (''reason'', JString ''Tone is not apologetic.'')])"
    by (simp add: negative_verdict_def)
  have q: "get_prop (JObject
     [(''isValid'', JBool False), (''reason'', JString ''Tone is not apologetic.'')])
     ''isValid'' = Inr (Some (JBool False))"
    by simp
  have g: "generateResponse (response_reply negative_verdict) =
      (JString ''A specialist will contact you shortly.'', [])"
    by (simp add: negative_verdict_def healthy_generation)
  have d: "DOMAINS ''bny'' \<noteq> None"
    by (simp add: DOMAINS_def)
  note T = negative_verdict_metadata_only [OF p q, where userMessage = "''What are my current fees?''"
      and history = "[]" and domainId = "''bny''" and onStepUpdate = always_returns and tr = "[]"]
  from T [THEN conjunct2] d always_returns_all g obtain r tr' where
    run: "processUserRequest negative_verdict ''What are my current fees?'' [] ''bny''
       always_returns [] = (Inr r, tr')"
    by auto
  from T [THEN conjunct1, of r tr'] run g
  have "response r = JString ''A specialist will contact you shortly.''"
    and "suggestedActions r = []" and "validationPassed (metadata r) = JBool False"
    by simp_all
  with run show ?thesis
    by (intro exI [of _ r] exI [of _ tr']) simp
qed

text \<open>
  Claim C9, as the code has it. In every run that returns, with a callback that returns
  normally and a classification block that assigns an intent without throwing (the call
  is not rejected, and its reply parses to a value other than \<^verbatim>\<open>null\<close> whose intent
  field is a string, absent or falsy), the callback receives exactly ten steps: a pending
  step and then a success or warning step for each of the five agents MASTER, RISK, SLA,
  SYSTEM and VALIDATION, in this order, each pair complete before the next begins.
  Routing and generation have no steps of their own: both lie between the two SYSTEM
  steps. Failures of the generation and validation calls are covered. Nothing is said of
  a run whose classification block throws.
\<close>

theorem progress_events_five_pairs:
  assumes run: "processUserRequest ai userMessage history domainId onStepUpdate tr = (Inr r, tr')"
    and cb: "\<forall>t step. onStepUpdate t step"
    and cl: "classify (intent_reply ai) = Inr i"
  shows "\<exists>evs x1 x2 x3. tr' = tr @ evs \<and>
     map (\<lambda>e. (agent e, status e)) evs =
       [(MASTER, pending), (MASTER, success), (RISK, pending), (RISK, x1),
        (SLA, pending), (SLA, x2), (SYSTEM, pending), (SYSTEM, success),
        (VALIDATION, pending), (VALIDATION, x3)] \<and>
     (x1 = success \<or> x1 = warning) \<and> (x2 = success \<or> x2 = warning) \<and>
     (x3 = success \<or> x3 = warning) \<and>
     stage_log 5 (map status evs)"
proof -
  from run_InrD [OF run] obtain cfg where d: "DOMAINS domainId = Some cfg"
    and g: "renderable (fst (generateResponse (response_reply ai)))"
    and v: "renderable (snd (validateResponse (validation_reply ai)))"
    by blast
  define x1 where "x1 = (if level (calculateRiskScore userMessage cfg) = CRITICAL
               \<or> level (calculateRiskScore userMessage cfg) = HIGH then warning else success)"
  define x2 where "x2 = (if breachPredicted
       (checkSLAStatus i (level (calculateRiskScore userMessage cfg)) cfg)
            then warning else success)"
  define x3 where "x3 = (if truthy (fst (validateResponse (validation_reply ai)))
                   then success else warning)"
  define evs where "evs = [\<lparr>agent = MASTER, message = Analyzing_intent, status = pending\<rparr>,
           \<lparr>agent = MASTER, message = Identified_Intent i, status = success\<rparr>]
        @ later_steps ai userMessage domainId cfg i"
  have t: "tr' = tr @ evs"
    using run_trace [OF cb d g v cl, of userMessage history tr] run
    by (simp add: evs_def)
  have m: "map (\<lambda>e. (agent e, status e)) evs =
       [(MASTER, pending), (MASTER, success), (RISK, pending), (RISK, x1),
        (SLA, pending), (SLA, x2), (SYSTEM, pending), (SYSTEM, success),
        (VALIDATION, pending), (VALIDATION, x3)]"
    by (simp add: evs_def x1_def x2_def x3_def later_steps_kinds)
  have x: "x1 = success \<or> x1 = warning" "x2 = success \<or> x2 = warning"
       "x3 = success \<or> x3 = warning"
    by (simp_all add: x1_def x2_def x3_def)
  have "map status evs = map snd (map (\<lambda>e. (agent e, status e)) evs)"
    by (simp add: comp_def)
  also have "\<dots> = [pending, success, pending, x1, pending, x2, pending, success, pending, x3]"
    by (simp only: m) simp
  finally have s: "map status evs =
      [pending, success, pending, x1, pending, x2, pending, success, pending, x3]" .
  have "stage_log 5 [pending, success, pending, x1, pending, x2, pending, success, pending, x3]"
    using x by (simp add: eval_nat_numeral)
  with s have sl: "stage_log 5 (map status evs)"
    by simp
  show ?thesis
  proof (intro exI conjI)
    show "tr' = tr @ evs"
      by (fact t)
    show "map (\<lambda>e. (agent e, status e)) evs =
       [(MASTER, pending), (MASTER, success), (RISK, pending), (RISK, x1),
        (SLA, pending), (SLA, x2), (SYSTEM, pending), (SYSTEM, success),
        (VALIDATION, pending), (VALIDATION, x3)]"
      by (fact m)
    show "x1 = success \<or> x1 = warning" "x2 = success \<or> x2 = warning"
       "x3 = success \<or> x3 = warning"
      by (fact x)+
    show "stage_log 5 (map status evs)"
      by (fact sl)
  qed
qed

theorem progress_events_five_pairs_witness:
  "\<exists>r tr'.
     processUserRequest healthy_ai ''my order is late and driver never arrived'' []
       ''zepto'' always_returns [] = (Inr r, tr') \<and>
     (\<exists>evs x1 x2 x3. tr' = [] @ evs \<and>
       map (\<lambda>e. (agent e, status e)) evs =
         [(MASTER, pending), (MASTER, success), (RISK, pending), (RISK, x1),
          (SLA, pending), (SLA, x2), (SYSTEM, pending), (SYSTEM, success),
          (VALIDATION, pending), (VALIDATION, x3)] \<and>
       (x1 = success \<or> x1 = warning) \<and> (x2 = success \<or> x2 = warning) \<and>
       (x3 = success \<or> x3 = warning) \<and>
       stage_log 5 (map status evs))"
proof -
  have d: "DOMAINS ''zepto'' = Some zepto"
    by (simp add: DOMAINS_def)
  have g: "renderable (fst (generateResponse (response_reply healthy_ai)))"
    by (simp add: healthy_generation)
  have v: "renderable (snd (validateResponse (validation_reply healthy_ai)))"
    by (simp add: healthy_validation)
  from run_returns [OF always_returns_all d g v]
  obtain r tr' where run: "processUserRequest healthy_ai
      ''my order is late and driver never arrived'' [] ''zepto'' always_returns [] = (Inr r, tr')"
    by blast
  note T = progress_events_five_pairs [OF run always_returns_all healthy_classification]
  show ?thesis
  proof (rule exI, rule exI, rule conjI)
    show "processUserRequest healthy_ai
      ''my order is late and driver never arrived'' [] ''zepto'' always_returns [] = (Inr r, tr')"
      by (fact run)
    show "\<exists>evs x1 x2 x3. tr' = [] @ evs \<and>
       map (\<lambda>e. (agent e, status e)) evs =
         [(MASTER, pending), (MASTER, success), (RISK, pending), (RISK, x1),
          (SLA, pending), (SLA, x2), (SYSTEM, pending), (SYSTEM, success),
          (VALIDATION, pending), (VALIDATION, x3)] \<and>
       (x1 = success \<or> x1 = warning) \<and> (x2 = success \<or> x2 = warning) \<and>
       (x3 = success \<or> x3 = warning) \<and>
       stage_log 5 (map status evs)"
      by (fact T)
  qed
qed

text \<open>
  Claim C9 as the specification words it asks for six pending and exit pairs. A run in
  which every call succeeds delivers ten steps, and a run whose classification call is
  rejected delivers nine: neither is a log of six stages.
\<close>

theorem progress_events_not_six_pairs:
  "\<not> stage_log 6 (map status (snd (processUserRequest healthy_ai
         ''my order is late and driver never arrived'' [] ''zepto'' always_returns [])))
   \<and> \<not> stage_log 6 (map status (snd (processUserRequest classification_down
         ''my order is late and driver never arrived'' [] ''zepto'' always_returns [])))"
proof
  have d: "DOMAINS ''zepto'' = Some zepto"
    by (simp add: DOMAINS_def)
  have g: "renderable (fst (generateResponse (response_reply healthy_ai)))"
    by (simp add: healthy_generation)
  have v: "renderable (snd (validateResponse (validation_reply healthy_ai)))"
    by (simp add: healthy_validation)
  have "length (map status (snd (processUserRequest healthy_ai
         ''my order is late and driver never arrived'' [] ''zepto'' always_returns []))) = 10"
    by (simp add: run_trace [OF always_returns_all d g v healthy_classification]
          length_later_steps)
  then show "\<not> stage_log 6 (map status (snd (processUserRequest healthy_ai
         ''my order is late and driver never arrived'' [] ''zepto'' always_returns [])))"
    using stage_log_length [of 6 "map status (snd (processUserRequest healthy_ai
         ''my order is late and driver never arrived'' [] ''zepto'' always_returns []))"]
    by auto
next
  have d: "DOMAINS ''zepto'' = Some zepto"
    by (simp add: DOMAINS_def)
  have g: "renderable (fst (generateResponse (response_reply classification_down)))"
    by (simp add: classification_down_def healthy_ai_def generateResponse_def)
  have v: "renderable (snd (validateResponse (validation_reply classification_down)))"
    by (simp add: classification_down_def healthy_ai_def validateResponse_def)
  have c: "classify (intent_reply classification_down) = Inl ServiceError"
    by (simp add: classification_down_def classify_def)
  have "length (map status (snd (processUserRequest classification_down
         ''my order is late and driver never arrived'' [] ''zepto'' always_returns []))) = 9"
    by (simp add: run_trace_classification_failed [OF always_returns_all d g v c]
          length_later_steps)
  then show "\<not> stage_log 6 (map status (snd (processUserRequest classification_down
         ''my order is late and driver never arrived'' [] ''zepto'' always_returns [])))"
    using stage_log_length [of 6 "map status (snd (processUserRequest classification_down
         ''my order is late and driver never arrived'' [] ''zepto'' always_returns []))"]
    by auto
qed

text \<open>
  When the classification block throws, the MASTER agent's pending step is never
  followed by an exit step: the \<^verbatim>\<open>catch\<close> emits nothing, and the next step the
  callback receives is the RISK agent's pending step. This is so when the call is
  rejected, and also when the reply parses but its intent is a number, on which
  \<^verbatim>\<open>toLowerCase\<close> is not a function.
\<close>

lemma classification_failure_steps:
  "map (\<lambda>e. (agent e, status e)) (take 2 (snd (processUserRequest classification_down
       ''my order is late and driver never arrived'' [] ''zepto'' always_returns []))) =
     [(MASTER, pending), (RISK, pending)]"
proof -
  have d: "DOMAINS ''zepto'' = Some zepto"
    by (simp add: DOMAINS_def)
  have g: "renderable (fst (generateResponse (response_reply classification_down)))"
    by (simp add: classification_down_def healthy_ai_def generateResponse_def)
  have v: "renderable (snd (validateResponse (validation_reply classification_down)))"
    by (simp add: classification_down_def healthy_ai_def validateResponse_def)
  have c: "classify (intent_reply classification_down) = Inl ServiceError"
    by (simp add: classification_down_def classify_def)
  show ?thesis
    by (simp add: run_trace_classification_failed [OF always_returns_all d g v c]
          later_steps_def Let_def)
qed

lemma numeric_intent_steps:
  "map (\<lambda>e. (agent e, status e)) (take 2 (snd (processUserRequest numeric_intent
       ''my order is late and driver never arrived'' [] ''zepto'' always_returns []))) =
     [(MASTER, pending), (RISK, pending)]
   \<and> length (snd (processUserRequest numeric_intent
       ''my order is late and driver never arrived'' [] ''zepto'' always_returns [])) = 9"
proof -
  have d: "DOMAINS ''zepto'' = Some zepto"
    by (simp add: DOMAINS_def)
  have g: "renderable (fst (generateResponse (response_reply numeric_intent)))"
    by (simp add: numeric_intent_def healthy_ai_def generateResponse_def)
  have v: "renderable (snd (validateResponse (validation_reply numeric_intent)))"
    by (simp add: numeric_intent_def healthy_ai_def validateResponse_def)
  show ?thesis
    by (simp add: run_trace_classification_failed
          [OF always_returns_all d g v classify_numeric_intent]
          later_steps_def Let_def)
qed

end
